theory Spec2Isabelle
  imports Main
begin

section \<open>JavaScript values\<close>

text \<open>
  The client passes loosely typed values (\<^verbatim>\<open>any\<close>) around: form data, query parameters,
  response bodies, toast messages. Objects are maps from property names to values; a
  \<^verbatim>\<open>File\<close> is its name and contents; a \<^verbatim>\<open>FormData\<close> is its list of appended entries.
  Numbers are integers here: no function of the client computes with them.
\<close>

datatype jsval =
    JUndefined
  | JNull
  | JBool bool
  | JNum int
  | JStr string
  | JFile string string
  | JFormData "(string \<times> jsval) list"
  | JArr "jsval list"
  | JObj "string \<Rightarrow> jsval option"

text \<open>Truthiness, as \<^verbatim>\<open>if (v)\<close> and \<^verbatim>\<open>v || w\<close> test it.\<close>

fun truthy :: "jsval \<Rightarrow> bool" where
  "truthy JUndefined = False"
| "truthy JNull = False"
| "truthy (JBool b) = b"
| "truthy (JNum n) = (n \<noteq> 0)"
| "truthy (JStr s) = (s \<noteq> [])"
| "truthy (JFile n c) = True"
| "truthy (JFormData es) = True"
| "truthy (JArr xs) = True"
| "truthy (JObj m) = True"

definition js_or :: "jsval \<Rightarrow> jsval \<Rightarrow> jsval" where
  "js_or a b = (if truthy a then a else b)"

text \<open>\<^verbatim>\<open>v?.error\<close>: only an object can have the property.\<close>

fun prop_error :: "jsval \<Rightarrow> jsval" where
  "prop_error (JObj m) = (case m ''error'' of Some v \<Rightarrow> v | None \<Rightarrow> JUndefined)"
| "prop_error v = JUndefined"

text \<open>Decimal rendering of a non-negative integer, as a template literal prints an id.\<close>

function string_of_nat :: "nat \<Rightarrow> string" where
  "string_of_nat n =
     (if n < 10 then [''0123456789'' ! n]
      else string_of_nat (n div 10) @ [''0123456789'' ! (n mod 10)])"
  by pat_completeness auto
termination
  by (relation "measure id") auto

declare string_of_nat.simps [simp del]

text \<open>
  The own enumerable properties that an object spread \<^verbatim>\<open>{ ...v }\<close> copies: those of an
  object, the indexed characters of a string, the indexed elements of an array, and
  nothing for the other values.
\<close>

definition indexed :: "jsval list \<Rightarrow> (string \<Rightarrow> jsval option)" where
  "indexed xs = map_of (zip (map string_of_nat [0..<length xs]) xs)"

fun own_props :: "jsval \<Rightarrow> (string \<Rightarrow> jsval option)" where
  "own_props (JObj m) = m"
| "own_props (JStr s) = indexed (map (\<lambda>c. JStr [c]) s)"
| "own_props (JArr xs) = indexed xs"
| "own_props v = Map.empty"

section \<open>Requests, responses and the client state\<close>

datatype http_method = GET | POST | PATCH | DELETE

text \<open>
  The configuration of one request. \<open>req_method\<close> is the \<^verbatim>\<open>method\<close> of the configuration;
  an absent \<open>responseType\<close> is the default, a JSON payload.
\<close>

record request_config =
  req_method :: http_method
  url :: string
  params :: jsval
  data :: jsval
  headers :: "string \<Rightarrow> string option"
  responseType :: "string option"
  baseURL :: "string option"

text \<open>
  A response: its status and its payload (\<^verbatim>\<open>response.data\<close>, named \<open>body\<close> here since
  \<open>data\<close> is the request's field).
\<close>

record response =
  status :: nat
  body :: jsval

text \<open>The error a request is rejected with; \<open>response\<close> is absent on a network failure.\<close>

record axios_error =
  config :: request_config
  response :: "response option"

datatype promise = Fulfilled response | Rejected axios_error

text \<open>
  The state the client reads and writes: the browser's \<^verbatim>\<open>localStorage\<close> and
  \<^verbatim>\<open>window.location.href\<close>, the default headers and base URL of the axios instance
  (\<^verbatim>\<open>this.api.defaults\<close>), and the requests handed to the network so far.
\<close>

record state =
  localStorage :: "string \<Rightarrow> string option"
  location_href :: string
  defaults_headers :: "string \<Rightarrow> string option"
  defaults_baseURL :: "string option"
  sent :: "request_config list"

text \<open>The Token Store is the part of \<^verbatim>\<open>localStorage\<close> that holds the session.\<close>

definition token_store :: "state \<Rightarrow> (string \<Rightarrow> string option)" where
  "token_store st = localStorage st |` {''token'', ''user''}"

section \<open>ApiService\<close>

text \<open>
  The base URL is the environment's \<^verbatim>\<open>REACT_APP_API_URL\<close> when that is set and not empty.
\<close>

definition API_BASE_URL :: "string option \<Rightarrow> string" where
  "API_BASE_URL env =
     (case env of
        Some u \<Rightarrow> if u \<noteq> [] then u else ''http://localhost:8000/api''
      | None \<Rightarrow> ''http://localhost:8000/api'')"

text \<open>
  \<^verbatim>\<open>axios.create\<close> in the constructor: the instance starts with the base URL and the JSON
  content type.
\<close>

definition constructor :: "string option \<Rightarrow> state \<Rightarrow> state" where
  "constructor env st =
     st\<lparr>defaults_baseURL := Some (API_BASE_URL env),
        defaults_headers := [''Content-Type'' \<mapsto> ''application/json'']\<rparr>"

definition setAuthToken :: "string option \<Rightarrow> state \<Rightarrow> state" where
  "setAuthToken token st =
     (case token of
        Some t \<Rightarrow>
          if t \<noteq> [] then
            st\<lparr>defaults_headers := (defaults_headers st)(''Authorization'' \<mapsto> ''Token '' @ t)\<rparr>
          else st\<lparr>defaults_headers := (defaults_headers st)(''Authorization'' := None)\<rparr>
      | None \<Rightarrow> st\<lparr>defaults_headers := (defaults_headers st)(''Authorization'' := None)\<rparr>)"

subsection \<open>The interceptors\<close>

definition request_fulfilled :: "(string \<Rightarrow> string option) \<Rightarrow> request_config \<Rightarrow> request_config" where
  "request_fulfilled ls cfg =
     (case ls ''token'' of
        Some token \<Rightarrow>
          if token \<noteq> [] then
            cfg\<lparr>headers := (headers cfg)(''Authorization'' \<mapsto> ''Token '' @ token)\<rparr>
          else cfg
      | None \<Rightarrow> cfg)"

text \<open>The request interceptor's error handler rejects with the error it is given.\<close>

definition request_rejected :: "axios_error \<Rightarrow> promise" where
  "request_rejected e = Rejected e"

definition response_fulfilled :: "response \<Rightarrow> response" where
  "response_fulfilled r = r"

definition is_401 :: "axios_error \<Rightarrow> bool" where
  "is_401 e = (case response e of Some r \<Rightarrow> status r = 401 | None \<Rightarrow> False)"

definition response_rejected :: "axios_error \<Rightarrow> state \<Rightarrow> promise \<times> state" where
  "response_rejected e st =
     (if is_401 e then
        (Rejected e,
         st\<lparr>localStorage := (localStorage st)(''token'' := None, ''user'' := None),
            location_href := ''/login''\<rparr>)
      else (Rejected e, st))"

subsection \<open>The axios instance around them\<close>

text \<open>
  What the axios instance does with a call: the call's headers are laid over the
  instance defaults, the base URL is the instance's unless the call has its own, the
  request interceptor runs, the request goes to the network once,
  and the response interceptor sees the outcome. A status outside 200..299 rejects with
  an error that carries the response; no response at all rejects with an error that
  carries none. The network is the function \<open>net\<close>.
\<close>

definition merge_config :: "state \<Rightarrow> request_config \<Rightarrow> request_config" where
  "merge_config st call =
     call\<lparr>headers := defaults_headers st ++ headers call,
          baseURL := (case baseURL call of Some b \<Rightarrow> Some b | None \<Rightarrow> defaults_baseURL st)\<rparr>"

definition outgoing :: "state \<Rightarrow> request_config \<Rightarrow> request_config" where
  "outgoing st call = request_fulfilled (localStorage st) (merge_config st call)"

definition axios_request ::
  "(request_config \<Rightarrow> response option) \<Rightarrow> request_config \<Rightarrow> state \<Rightarrow> promise \<times> state" where
  "axios_request net call st =
     (let cfg = outgoing st call;
          st1 = st\<lparr>sent := sent st @ [cfg]\<rparr>
      in case net cfg of
           None \<Rightarrow> response_rejected \<lparr>config = cfg, response = None\<rparr> st1
         | Some r \<Rightarrow>
             if 200 \<le> status r \<and> status r < 300 then (Fulfilled (response_fulfilled r), st1)
             else response_rejected \<lparr>config = cfg, response = Some r\<rparr> st1)"

subsection \<open>The endpoints\<close>

text \<open>A call with no configuration of its own, and the four verbs of the instance.\<close>

definition no_config :: request_config where
  "no_config =
     \<lparr>req_method = GET, url = [], params = JUndefined, data = JUndefined,
      headers = Map.empty, responseType = None, baseURL = None\<rparr>"

definition axios_get :: "string \<Rightarrow> request_config \<Rightarrow> request_config" where
  "axios_get u cfg = cfg\<lparr>req_method := GET, url := u\<rparr>"

definition axios_delete :: "string \<Rightarrow> request_config \<Rightarrow> request_config" where
  "axios_delete u cfg = cfg\<lparr>req_method := DELETE, url := u\<rparr>"

definition axios_post :: "string \<Rightarrow> jsval \<Rightarrow> request_config \<Rightarrow> request_config" where
  "axios_post u d cfg = cfg\<lparr>req_method := POST, url := u, data := d\<rparr>"

definition axios_patch :: "string \<Rightarrow> jsval \<Rightarrow> request_config \<Rightarrow> request_config" where
  "axios_patch u d cfg = cfg\<lparr>req_method := PATCH, url := u, data := d\<rparr>"

definition login :: "string \<Rightarrow> string \<Rightarrow> request_config" where
  "login username password =
     axios_post ''/auth/login/''
       (JObj [''username'' \<mapsto> JStr username, ''password'' \<mapsto> JStr password]) no_config"

definition register :: "jsval \<Rightarrow> request_config" where
  "register userData = axios_post ''/users/register/'' userData no_config"

definition getCurrentUser :: request_config where
  "getCurrentUser = axios_get ''/users/me/'' no_config"

definition getTransactions :: "jsval \<Rightarrow> request_config" where
  "getTransactions ps = axios_get ''/transactions/'' (no_config\<lparr>params := ps\<rparr>)"

definition createTransaction :: "jsval \<Rightarrow> request_config" where
  "createTransaction d = axios_post ''/transactions/'' d no_config"

definition updateTransaction :: "nat \<Rightarrow> jsval \<Rightarrow> request_config" where
  "updateTransaction i d =
     axios_patch (''/transactions/'' @ string_of_nat i @ ''/'') d no_config"

definition deleteTransaction :: "nat \<Rightarrow> request_config" where
  "deleteTransaction i = axios_delete (''/transactions/'' @ string_of_nat i @ ''/'') no_config"

definition getTransactionSummary :: "jsval \<Rightarrow> request_config" where
  "getTransactionSummary ps = axios_get ''/transactions/summary/'' (no_config\<lparr>params := ps\<rparr>)"

definition getTransactionCategories :: request_config where
  "getTransactionCategories = axios_get ''/transactions/categories/'' no_config"

definition importTransactionsCSV :: "jsval \<Rightarrow> request_config" where
  "importTransactionsCSV file =
     axios_post ''/transactions/import_csv/'' (JFormData [(''file'', file)])
       (no_config\<lparr>headers := [''Content-Type'' \<mapsto> ''multipart/form-data'']\<rparr>)"

definition bulkCreateTransactions :: "jsval list \<Rightarrow> request_config" where
  "bulkCreateTransactions transactions =
     axios_post ''/transactions/bulk_create/'' (JObj [''transactions'' \<mapsto> JArr transactions])
       no_config"

definition getBudgets :: request_config where
  "getBudgets = axios_get ''/budgets/'' no_config"

definition createBudget :: "jsval \<Rightarrow> request_config" where
  "createBudget d = axios_post ''/budgets/'' d no_config"

definition updateBudget :: "nat \<Rightarrow> jsval \<Rightarrow> request_config" where
  "updateBudget i d = axios_patch (''/budgets/'' @ string_of_nat i @ ''/'') d no_config"

definition deleteBudget :: "nat \<Rightarrow> request_config" where
  "deleteBudget i = axios_delete (''/budgets/'' @ string_of_nat i @ ''/'') no_config"

definition getBudgetStatus :: "jsval \<Rightarrow> request_config" where
  "getBudgetStatus ps = axios_get ''/budgets/status/'' (no_config\<lparr>params := ps\<rparr>)"

definition getBudgetAlerts :: request_config where
  "getBudgetAlerts = axios_get ''/budgets/alerts/'' no_config"

definition getBudgetRecommendations :: "jsval \<Rightarrow> request_config" where
  "getBudgetRecommendations ps =
     axios_get ''/budgets/recommendations/'' (no_config\<lparr>params := ps\<rparr>)"

definition getFinancialSummary :: "jsval \<Rightarrow> request_config" where
  "getFinancialSummary ps = axios_get ''/reports/summary/'' (no_config\<lparr>params := ps\<rparr>)"

definition getCategoryBreakdown :: "jsval \<Rightarrow> request_config" where
  "getCategoryBreakdown ps = axios_get ''/reports/category/'' (no_config\<lparr>params := ps\<rparr>)"

definition getMonthlyTrends :: "jsval \<Rightarrow> request_config" where
  "getMonthlyTrends ps = axios_get ''/reports/trends/'' (no_config\<lparr>params := ps\<rparr>)"

definition getBudgetPerformance :: "jsval \<Rightarrow> request_config" where
  "getBudgetPerformance ps = axios_get ''/reports/budget/'' (no_config\<lparr>params := ps\<rparr>)"

definition getPieChart :: "jsval \<Rightarrow> request_config" where
  "getPieChart ps = axios_get ''/charts/pie/'' (no_config\<lparr>params := ps\<rparr>)"

definition getBarChart :: "jsval \<Rightarrow> request_config" where
  "getBarChart ps = axios_get ''/charts/bar/'' (no_config\<lparr>params := ps\<rparr>)"

definition getLineChart :: "jsval \<Rightarrow> request_config" where
  "getLineChart ps = axios_get ''/charts/line/'' (no_config\<lparr>params := ps\<rparr>)"

definition getDashboardChart :: request_config where
  "getDashboardChart = axios_get ''/charts/dashboard/'' no_config"

definition getBudgetChart :: "jsval \<Rightarrow> request_config" where
  "getBudgetChart ps = axios_get ''/charts/budget/'' (no_config\<lparr>params := ps\<rparr>)"

text \<open>
  \<^verbatim>\<open>params: { type, ...params }\<close>: the explicit type first, then the caller's own
  properties laid over it.
\<close>

definition downloadChart :: "string \<Rightarrow> jsval \<Rightarrow> request_config" where
  "downloadChart type ps =
     axios_get ''/charts/download/''
       (no_config\<lparr>params := JObj ([''type'' \<mapsto> JStr type] ++ own_props ps),
                  responseType := Some ''blob''\<rparr>)"

definition getAlertConfigs :: request_config where
  "getAlertConfigs = axios_get ''/alert-configs/'' no_config"

definition createAlertConfig :: "jsval \<Rightarrow> request_config" where
  "createAlertConfig d = axios_post ''/alert-configs/'' d no_config"

definition updateAlertConfig :: "nat \<Rightarrow> jsval \<Rightarrow> request_config" where
  "updateAlertConfig i d = axios_patch (''/alert-configs/'' @ string_of_nat i @ ''/'') d no_config"

definition deleteAlertConfig :: "nat \<Rightarrow> request_config" where
  "deleteAlertConfig i = axios_delete (''/alert-configs/'' @ string_of_nat i @ ''/'') no_config"

section \<open>The pages' mutations\<close>

text \<open>
  What a handler does, in the order it does it: cache invalidations, toasts, and the
  page's own state updates.
\<close>

datatype effect =
    InvalidateQueries string
  | ToastSuccess string
  | ToastError jsval
  | SetShowAddForm bool
  | SetEditingTransaction jsval
  | SetEditingBudget jsval
  | SetShowImportModal bool
  | Reset
  | ResetAlert

text \<open>A mutation with the variables it is submitted with.\<close>

datatype mutation =
    CreateTransaction jsval
  | UpdateTransaction nat jsval
  | DeleteTransaction nat
  | ImportCSV jsval
  | CreateBudget jsval
  | UpdateBudget nat jsval
  | DeleteBudget nat
  | UpdateProfile jsval
  | CreateAlert jsval

fun mutationFn :: "mutation \<Rightarrow> request_config" where
  "mutationFn (CreateTransaction d) = createTransaction d"
| "mutationFn (UpdateTransaction i d) = updateTransaction i d"
| "mutationFn (DeleteTransaction i) = deleteTransaction i"
| "mutationFn (ImportCSV file) = importTransactionsCSV file"
| "mutationFn (CreateBudget d) = createBudget d"
| "mutationFn (UpdateBudget i d) = updateBudget i d"
| "mutationFn (DeleteBudget i) = deleteBudget i"
| "mutationFn (UpdateProfile d) = getCurrentUser"
| "mutationFn (CreateAlert d) = createAlertConfig d"

text \<open>The handlers; \<open>t\<close> is the translation function of the language context.\<close>

fun onSuccess :: "(string \<Rightarrow> string) \<Rightarrow> mutation \<Rightarrow> effect list" where
  "onSuccess t (CreateTransaction d) =
     [InvalidateQueries ''transactions'', ToastSuccess (t ''transactions.transactionAdded''),
      SetShowAddForm False, Reset]"
| "onSuccess t (UpdateTransaction i d) =
     [InvalidateQueries ''transactions'', ToastSuccess (t ''transactions.transactionUpdated''),
      SetEditingTransaction JNull, Reset]"
| "onSuccess t (DeleteTransaction i) =
     [InvalidateQueries ''transactions'', ToastSuccess (t ''transactions.transactionDeleted'')]"
| "onSuccess t (ImportCSV file) =
     [InvalidateQueries ''transactions'', ToastSuccess (t ''transactions.csvImported''),
      SetShowImportModal False]"
| "onSuccess t (CreateBudget d) =
     [InvalidateQueries ''budgets'', InvalidateQueries ''budget-status'',
      ToastSuccess (t ''budgets.budgetAdded''), SetShowAddForm False, Reset]"
| "onSuccess t (UpdateBudget i d) =
     [InvalidateQueries ''budgets'', InvalidateQueries ''budget-status'',
      ToastSuccess (t ''budgets.budgetUpdated''), SetEditingBudget JNull, Reset]"
| "onSuccess t (DeleteBudget i) =
     [InvalidateQueries ''budgets'', InvalidateQueries ''budget-status'',
      ToastSuccess (t ''budgets.budgetDeleted'')]"
| "onSuccess t (UpdateProfile d) =
     [InvalidateQueries ''current-user'', ToastSuccess (t ''settings.settingsSaved'')]"
| "onSuccess t (CreateAlert d) =
     [InvalidateQueries ''alert-configs'', ToastSuccess ''Alert configuration saved'', ResetAlert]"

text \<open>\<^verbatim>\<open>error.response?.data?.error\<close>\<close>

definition server_error :: "axios_error \<Rightarrow> jsval" where
  "server_error e = (case response e of Some r \<Rightarrow> prop_error (body r) | None \<Rightarrow> JUndefined)"

fun onError :: "(string \<Rightarrow> string) \<Rightarrow> mutation \<Rightarrow> axios_error \<Rightarrow> effect list" where
  "onError t (CreateTransaction d) e =
     [ToastError (js_or (server_error e) (JStr ''Failed to create transaction''))]"
| "onError t (UpdateTransaction i d) e =
     [ToastError (js_or (server_error e) (JStr ''Failed to update transaction''))]"
| "onError t (DeleteTransaction i) e =
     [ToastError (js_or (server_error e) (JStr ''Failed to delete transaction''))]"
| "onError t (ImportCSV file) e =
     [ToastError (js_or (server_error e) (JStr (t ''transactions.csvImportError'')))]"
| "onError t (CreateBudget d) e =
     [ToastError (js_or (server_error e) (JStr ''Failed to create budget''))]"
| "onError t (UpdateBudget i d) e =
     [ToastError (js_or (server_error e) (JStr ''Failed to update budget''))]"
| "onError t (DeleteBudget i) e =
     [ToastError (js_or (server_error e) (JStr ''Failed to delete budget''))]"
| "onError t (UpdateProfile d) e = [ToastError (JStr ''Failed to update profile'')]"
| "onError t (CreateAlert d) e = [ToastError (JStr ''Failed to save alert configuration'')]"

text \<open>
  A mutation runs its function and then the handler of the outcome: \<open>onSuccess\<close> when the
  promise is fulfilled, \<open>onError\<close> with the error when it is rejected.
\<close>

definition mutate ::
  "(string \<Rightarrow> string) \<Rightarrow> (request_config \<Rightarrow> response option) \<Rightarrow> mutation \<Rightarrow> state
     \<Rightarrow> effect list \<times> state" where
  "mutate t net m st =
     (case axios_request net (mutationFn m) st of
        (Fulfilled r, st') \<Rightarrow> (onSuccess t m, st')
      | (Rejected e, st') \<Rightarrow> (onError t m e, st'))"

text \<open>The cache keys a list of effects invalidates, in order.\<close>

fun invalidated :: "effect list \<Rightarrow> string list" where
  "invalidated [] = []"
| "invalidated (InvalidateQueries k # es) = k # invalidated es"
| "invalidated (e # es) = invalidated es"

text \<open>The value a request's query parameters give a key, when they are an object.\<close>

definition query_param :: "request_config \<Rightarrow> string \<Rightarrow> jsval option" where
  "query_param cfg k = (case params cfg of JObj m \<Rightarrow> m k | _ \<Rightarrow> None)"

section \<open>Example states and servers\<close>

text \<open>A browser with nothing stored, before the service is constructed.\<close>

definition fresh :: state where
  "fresh =
     \<lparr>localStorage = Map.empty, location_href = ''/login'',
      defaults_headers = Map.empty, defaults_baseURL = None, sent = []\<rparr>"

text \<open>A logged-in browser on the dashboard, with a language preference stored too.\<close>

definition stored_session :: state where
  "stored_session =
     \<lparr>localStorage = [''token'' \<mapsto> ''abc'', ''user'' \<mapsto> ''{}'', ''language'' \<mapsto> ''fa''],
      location_href = ''/dashboard'',
      defaults_headers = [''Content-Type'' \<mapsto> ''application/json''],
      defaults_baseURL = Some ''http://localhost:8000/api'',
      sent = []\<rparr>"

text \<open>A server that answers every request with the same status and payload.\<close>

definition answers :: "nat \<Rightarrow> jsval \<Rightarrow> request_config \<Rightarrow> response option" where
  "answers s b cfg = Some \<lparr>status = s, body = b\<rparr>"

section \<open>The request pipeline\<close>

lemma outgoing_headers:
  "headers (outgoing st call) =
     (case localStorage st ''token'' of
        Some tok \<Rightarrow>
          if tok \<noteq> [] then
            (defaults_headers st ++ headers call)(''Authorization'' \<mapsto> ''Token '' @ tok)
          else defaults_headers st ++ headers call
      | None \<Rightarrow> defaults_headers st ++ headers call)"
  by (simp add: outgoing_def request_fulfilled_def merge_config_def split: option.splits)

lemma outgoing_fields:
  "req_method (outgoing st call) = req_method call"
  "url (outgoing st call) = url call"
  "params (outgoing st call) = params call"
  "data (outgoing st call) = data call"
  "responseType (outgoing st call) = responseType call"
  by (simp_all add: outgoing_def request_fulfilled_def merge_config_def split: option.splits)

lemma axios_request_sent:
  "sent (snd (axios_request net call st)) = sent st @ [outgoing st call]"
  by (simp add: axios_request_def Let_def response_rejected_def split: option.splits)

lemma axios_request_2xx:
  assumes "net (outgoing st call) = Some r" and "200 \<le> status r" and "status r < 300"
  shows "axios_request net call st = (Fulfilled r, st\<lparr>sent := sent st @ [outgoing st call]\<rparr>)"
  using assms by (simp add: axios_request_def Let_def response_fulfilled_def)

lemma axios_request_401:
  assumes "net (outgoing st call) = Some r" and "status r = 401"
  shows "axios_request net call st =
     (Rejected \<lparr>config = outgoing st call, response = Some r\<rparr>,
      st\<lparr>sent := sent st @ [outgoing st call],
         localStorage := (localStorage st)(''token'' := None, ''user'' := None),
         location_href := ''/login''\<rparr>)"
  using assms by (simp add: axios_request_def Let_def response_rejected_def is_401_def)

text \<open>
  C1. Whatever the call, when the response has status 401 the error handler removes the
  entries \<open>token\<close> and \<open>user\<close> from \<^verbatim>\<open>localStorage\<close> (and nothing else), so the Token
  Store is empty afterwards, and the location is \<^verbatim>\<open>/login\<close>.
\<close>

theorem unauthorized_clears_token_store:
  assumes "net (outgoing st call) = Some r" and "status r = 401"
  shows "localStorage (snd (axios_request net call st)) =
           (localStorage st)(''token'' := None, ''user'' := None)
       \<and> token_store (snd (axios_request net call st)) = Map.empty
       \<and> location_href (snd (axios_request net call st)) = ''/login''"
  using assms by (auto simp add: axios_request_401 token_store_def restrict_map_def)

theorem unauthorized_clears_token_store_witness:
  "answers 401 JNull (outgoing stored_session (getTransactions JUndefined))
     = Some \<lparr>status = 401, body = JNull\<rparr>
   \<and> status \<lparr>status = 401, body = JNull\<rparr> = 401
   \<and> token_store (snd (axios_request (answers 401 JNull) (getTransactions JUndefined)
        stored_session)) = Map.empty
   \<and> location_href (snd (axios_request (answers 401 JNull) (getTransactions JUndefined)
        stored_session)) = ''/login''"
  using unauthorized_clears_token_store
    [of "answers 401 JNull" stored_session "getTransactions JUndefined"
      "\<lparr>status = 401, body = JNull\<rparr>"]
  by (simp add: answers_def)

text \<open>
  C9. On a 401 response the error handler still rejects with the error it was given:
  the caller's promise is rejected with the error that carries the 401 response, after
  the token has been removed and the location set to \<^verbatim>\<open>/login\<close>. The handler
  rejects with its argument in whatever state it runs.
\<close>

theorem unauthorized_still_rejects:
  assumes "net (outgoing st call) = Some r" and "status r = 401"
  shows "fst (axios_request net call st)
           = Rejected \<lparr>config = outgoing st call, response = Some r\<rparr>
       \<and> fst (response_rejected \<lparr>config = outgoing st call, response = Some r\<rparr> st')
           = Rejected \<lparr>config = outgoing st call, response = Some r\<rparr>
       \<and> localStorage (snd (axios_request net call st)) ''token'' = None
       \<and> localStorage (snd (axios_request net call st)) ''user'' = None
       \<and> location_href (snd (axios_request net call st)) = ''/login''"
  using assms by (simp add: axios_request_401 response_rejected_def)

theorem unauthorized_still_rejects_witness:
  "answers 401 JNull (outgoing stored_session getBudgets) = Some \<lparr>status = 401, body = JNull\<rparr>
   \<and> status \<lparr>status = 401, body = JNull\<rparr> = 401
   \<and> fst (axios_request (answers 401 JNull) getBudgets stored_session)
       = Rejected \<lparr>config = outgoing stored_session getBudgets,
                    response = Some \<lparr>status = 401, body = JNull\<rparr>\<rparr>
   \<and> location_href (snd (axios_request (answers 401 JNull) getBudgets stored_session))
       = ''/login''"
  using unauthorized_still_rejects
    [of "answers 401 JNull" stored_session getBudgets "\<lparr>status = 401, body = JNull\<rparr>"]
  by (simp add: answers_def)

text \<open>
  C6. When the response has a status outside 200..299 other than 401, the request has
  gone to the network exactly once, the caller's promise is rejected with the error that
  carries that response, which the error handler passes on as it is, and neither
  \<^verbatim>\<open>localStorage\<close>, the location nor the default headers have changed.
\<close>

theorem other_failures_surface_unchanged:
  assumes "net (outgoing st call) = Some r"
    and "\<not> (200 \<le> status r \<and> status r < 300)" and "status r \<noteq> 401"
  shows "axios_request net call st =
           (Rejected \<lparr>config = outgoing st call, response = Some r\<rparr>,
            st\<lparr>sent := sent st @ [outgoing st call]\<rparr>)
       \<and> length (sent (snd (axios_request net call st))) = Suc (length (sent st))
       \<and> localStorage (snd (axios_request net call st)) = localStorage st
       \<and> location_href (snd (axios_request net call st)) = location_href st
       \<and> defaults_headers (snd (axios_request net call st)) = defaults_headers st
       \<and> defaults_baseURL (snd (axios_request net call st)) = defaults_baseURL st
       \<and> response_rejected \<lparr>config = outgoing st call, response = Some r\<rparr> st
           = (Rejected \<lparr>config = outgoing st call, response = Some r\<rparr>, st)"
  using assms by (simp add: axios_request_def Let_def response_rejected_def is_401_def)

theorem other_failures_surface_unchanged_witness:
  "answers 500 JNull (outgoing stored_session (createBudget JNull))
     = Some \<lparr>status = 500, body = JNull\<rparr>
   \<and> \<not> (200 \<le> status \<lparr>status = 500, body = JNull\<rparr>
          \<and> status \<lparr>status = 500, body = JNull\<rparr> < 300)
   \<and> status \<lparr>status = 500, body = JNull\<rparr> \<noteq> 401
   \<and> fst (axios_request (answers 500 JNull) (createBudget JNull) stored_session)
       = Rejected \<lparr>config = outgoing stored_session (createBudget JNull),
                    response = Some \<lparr>status = 500, body = JNull\<rparr>\<rparr>
   \<and> length (sent (snd (axios_request (answers 500 JNull) (createBudget JNull)
        stored_session))) = 1
   \<and> localStorage (snd (axios_request (answers 500 JNull) (createBudget JNull)
        stored_session)) ''token'' = Some ''abc''
   \<and> location_href (snd (axios_request (answers 500 JNull) (createBudget JNull)
        stored_session)) = ''/dashboard''"
  using other_failures_surface_unchanged
    [of "answers 500 JNull" stored_session "createBudget JNull"
      "\<lparr>status = 500, body = JNull\<rparr>"]
  by (simp add: answers_def stored_session_def)

text \<open>
  C2, as the code has it. A non-empty token stored under \<open>token\<close> at dispatch time makes
  the request interceptor set the Authorization header to \<^verbatim>\<open>Token \<close> followed by the
  token. With no token stored, or the empty string, the interceptor leaves the request
  as it is: its Authorization header is then the one of the instance defaults (which
  \<open>setAuthToken\<close> sets) or of the call's own configuration, and absent only when
  neither supplies one.
\<close>

theorem authorization_header_follows_token:
  "(localStorage st ''token'' = Some tok \<and> tok \<noteq> [] \<longrightarrow>
      headers (outgoing st call) ''Authorization'' = Some (''Token '' @ tok))
   \<and> (localStorage st ''token'' = None \<or> localStorage st ''token'' = Some [] \<longrightarrow>
      outgoing st call = merge_config st call
      \<and> headers (outgoing st call) ''Authorization''
          = (defaults_headers st ++ headers call) ''Authorization'')"
  by (auto simp add: outgoing_def request_fulfilled_def merge_config_def)

theorem authorization_header_follows_token_witness:
  "localStorage stored_session ''token'' = Some ''abc'' \<and> ''abc'' \<noteq> []
   \<and> headers (outgoing stored_session getCurrentUser) ''Authorization'' = Some ''Token abc''
   \<and> localStorage (constructor None fresh) ''token'' = None
   \<and> headers (outgoing (constructor None fresh) getCurrentUser) ''Authorization'' = None"
  using authorization_header_follows_token [of stored_session "''abc''" getCurrentUser]
    authorization_header_follows_token [of "constructor None fresh" "''abc''" getCurrentUser]
  by (simp add: stored_session_def fresh_def constructor_def getCurrentUser_def axios_get_def
      no_config_def outgoing_def request_fulfilled_def merge_config_def)

text \<open>
  The claim C2 as stated fails twice. After \<open>setAuthToken\<close> with a token, a browser with
  no token stored still sends the Authorization header of the instance defaults; and a
  stored token that is the empty string is present, yet no header is built from it.
\<close>

theorem authorization_header_counterexample:
  "localStorage (setAuthToken (Some ''abc'') (constructor None fresh)) ''token'' = None
   \<and> headers (outgoing (setAuthToken (Some ''abc'') (constructor None fresh)) getCurrentUser)
        ''Authorization'' = Some ''Token abc''
   \<and> localStorage (fresh\<lparr>localStorage := [''token'' \<mapsto> []]\<rparr>) ''token'' = Some []
   \<and> headers (outgoing (constructor None (fresh\<lparr>localStorage := [''token'' \<mapsto> []]\<rparr>)) getCurrentUser)
        ''Authorization'' = None"
  by (simp add: outgoing_headers setAuthToken_def fresh_def constructor_def getCurrentUser_def
      axios_get_def no_config_def)

text \<open>
  C7. The CSV upload goes out with the content type \<^verbatim>\<open>multipart/form-data\<close>, whatever
  the instance defaults are, and its payload is the form data holding the file; an
  ordinary call of the constructed instance goes out with \<^verbatim>\<open>application/json\<close>. The
  chart download asks for a \<^verbatim>\<open>blob\<close>; the other chart calls leave the response type
  at its default.
\<close>

theorem upload_multipart_download_blob:
  "headers (outgoing st (importTransactionsCSV file)) ''Content-Type''
     = Some ''multipart/form-data''
   \<and> data (outgoing st (importTransactionsCSV file)) = JFormData [(''file'', file)]
   \<and> headers (outgoing (constructor env st) (createTransaction d)) ''Content-Type''
       = Some ''application/json''
   \<and> responseType (outgoing st (downloadChart type ps)) = Some ''blob''
   \<and> responseType (outgoing st (getPieChart ps)) = None"
  by (simp add: outgoing_def request_fulfilled_def merge_config_def importTransactionsCSV_def
      downloadChart_def createTransaction_def constructor_def getPieChart_def
      axios_post_def axios_get_def no_config_def split: option.splits)

section \<open>Mutations\<close>

lemma mutate_sent:
  "sent (snd (mutate t net m st)) = sent st @ [outgoing st (mutationFn m)]"
proof -
  obtain p st' where run: "axios_request net (mutationFn m) st = (p, st')"
    by (cases "axios_request net (mutationFn m) st")
  then have "sent st' = sent st @ [outgoing st (mutationFn m)]"
    using axios_request_sent [of net "mutationFn m" st] by simp
  with run show ?thesis
    by (cases p) (simp_all add: mutate_def)
qed

lemma mutate_fulfilled:
  assumes "net (outgoing st (mutationFn m)) = Some r" and "200 \<le> status r" and "status r < 300"
  shows "fst (mutate t net m st) = onSuccess t m"
  using assms by (simp add: mutate_def axios_request_2xx)

lemma mutate_rejected:
  assumes "net (outgoing st (mutationFn m)) = Some r" and "\<not> (200 \<le> status r \<and> status r < 300)"
  shows "fst (mutate t net m st)
           = onError t m \<lparr>config = outgoing st (mutationFn m), response = Some r\<rparr>"
proof -
  have "axios_request net (mutationFn m) st
      = response_rejected \<lparr>config = outgoing st (mutationFn m), response = Some r\<rparr>
          (st\<lparr>sent := sent st @ [outgoing st (mutationFn m)]\<rparr>)"
    using assms by (auto simp add: axios_request_def Let_def)
  then show ?thesis
    by (simp add: mutate_def response_rejected_def)
qed

lemma mutate_network_failure:
  assumes "net (outgoing st (mutationFn m)) = None"
  shows "fst (mutate t net m st)
           = onError t m \<lparr>config = outgoing st (mutationFn m), response = None\<rparr>"
  using assms by (simp add: mutate_def axios_request_def Let_def response_rejected_def)

lemma onSuccess_shape:
  "\<exists>ks msg rest. onSuccess t m = map InvalidateQueries ks @ ToastSuccess msg # rest
      \<and> ks \<noteq> [] \<and> invalidated rest = []"
proof (cases m)
  case (CreateTransaction d)
  then show ?thesis by (intro exI [of _ "[''transactions'']"]) simp
next
  case (UpdateTransaction i d)
  then show ?thesis by (intro exI [of _ "[''transactions'']"]) simp
next
  case (DeleteTransaction i)
  then show ?thesis by (intro exI [of _ "[''transactions'']"]) simp
next
  case (ImportCSV f)
  then show ?thesis by (intro exI [of _ "[''transactions'']"]) simp
next
  case (CreateBudget d)
  then show ?thesis by (intro exI [of _ "[''budgets'', ''budget-status'']"]) simp
next
  case (UpdateBudget i d)
  then show ?thesis by (intro exI [of _ "[''budgets'', ''budget-status'']"]) simp
next
  case (DeleteBudget i)
  then show ?thesis by (intro exI [of _ "[''budgets'', ''budget-status'']"]) simp
next
  case (UpdateProfile d)
  then show ?thesis by (intro exI [of _ "[''current-user'']"]) simp
next
  case (CreateAlert d)
  then show ?thesis by (intro exI [of _ "[''alert-configs'']"]) simp
qed

lemma onError_never_invalidates: "invalidated (onError t m e) = []"
  by (cases m) simp_all

lemma failed_mutation_never_invalidates:
  assumes "net (outgoing st (mutationFn m)) = Some r" and "\<not> (200 \<le> status r \<and> status r < 300)"
  shows "invalidated (fst (mutate t net m st)) = []"
  using assms by (simp add: mutate_rejected onError_never_invalidates)

text \<open>
  C3. When a mutation's request is answered with a 2xx status, what the page then does
  starts with its cache invalidations, at least one, followed by the success toast, and
  nothing after the toast invalidates a key: every key is invalidated before the toast
  is shown.
\<close>

theorem success_invalidates_before_toast:
  assumes "net (outgoing st (mutationFn m)) = Some r" and "200 \<le> status r" and "status r < 300"
  shows "\<exists>ks msg rest.
           fst (mutate t net m st) = map InvalidateQueries ks @ ToastSuccess msg # rest
           \<and> ks \<noteq> [] \<and> invalidated rest = []"
  using assms onSuccess_shape [of t m] by (simp add: mutate_fulfilled)

theorem success_invalidates_before_toast_witness:
  "answers 201 JNull (outgoing stored_session (mutationFn (CreateBudget JNull)))
     = Some \<lparr>status = 201, body = JNull\<rparr>
   \<and> 200 \<le> status \<lparr>status = 201, body = JNull\<rparr>
   \<and> status \<lparr>status = 201, body = JNull\<rparr> < 300
   \<and> (\<exists>ks msg rest.
         fst (mutate (\<lambda>k. k) (answers 201 JNull) (CreateBudget JNull) stored_session)
           = map InvalidateQueries ks @ ToastSuccess msg # rest
         \<and> ks \<noteq> [] \<and> invalidated rest = [])
   \<and> fst (mutate (\<lambda>k. k) (answers 201 JNull) (CreateBudget JNull) stored_session)
       = [InvalidateQueries ''budgets'', InvalidateQueries ''budget-status'',
          ToastSuccess ''budgets.budgetAdded'', SetShowAddForm False, Reset]"
proof -
  have sent: "answers 201 JNull (outgoing stored_session (mutationFn (CreateBudget JNull)))
      = Some \<lparr>status = 201, body = JNull\<rparr>"
    by (simp add: answers_def)
  have run: "fst (mutate (\<lambda>k. k) (answers 201 JNull) (CreateBudget JNull) stored_session)
      = onSuccess (\<lambda>k. k) (CreateBudget JNull)"
    using sent by (rule mutate_fulfilled) simp_all
  show ?thesis
    using sent run
      success_invalidates_before_toast
        [of "answers 201 JNull" stored_session "CreateBudget JNull"
          "\<lparr>status = 201, body = JNull\<rparr>" "\<lambda>k. k"]
    by simp
qed

text \<open>
  C4, at a failing input. The alert form of the Settings page is answered with status
  400 and a payload whose \<open>error\<close> is a message: the toast shows the fixed text, not the
  server's message. The same answer to the budget form of the Budgets page shows the
  server's message. In both cases nothing is invalidated.
\<close>

theorem settings_failure_drops_server_message:
  "fst (mutate (\<lambda>k. k) (answers 400 (JObj [''error'' \<mapsto> JStr ''Threshold must be positive'']))
          (CreateAlert JNull) stored_session)
     = [ToastError (JStr ''Failed to save alert configuration'')]
   \<and> fst (mutate (\<lambda>k. k) (answers 400 (JObj [''error'' \<mapsto> JStr ''Threshold must be positive'']))
          (CreateBudget JNull) stored_session)
     = [ToastError (JStr ''Threshold must be positive'')]"
  by (simp add: mutate_def axios_request_def Let_def answers_def response_rejected_def is_401_def
      server_error_def js_or_def)

text \<open>
  C5. Submitting the profile form, with whatever data, runs \<open>getCurrentUser\<close>: the one
  request that goes to the network is a GET of \<^verbatim>\<open>/users/me/\<close> with no payload and no
  query parameters, the same for every form data.
\<close>

theorem profile_update_issues_read:
  "mutationFn (UpdateProfile d) = getCurrentUser
   \<and> sent (snd (mutate t net (UpdateProfile d) st)) = sent st @ [outgoing st getCurrentUser]
   \<and> req_method (outgoing st getCurrentUser) = GET
   \<and> url (outgoing st getCurrentUser) = ''/users/me/''
   \<and> data (outgoing st getCurrentUser) = JUndefined
   \<and> params (outgoing st getCurrentUser) = JUndefined"
  by (simp add: mutate_sent outgoing_fields getCurrentUser_def axios_get_def no_config_def)

section \<open>The chart download's parameters\<close>

lemma string_of_nat_digits: "set (string_of_nat n) \<subseteq> set ''0123456789''"
proof (induction n rule: string_of_nat.induct)
  case (1 n)
  have digit: "''0123456789'' ! k \<in> set ''0123456789''" if "k < 10" for k
    using that by (intro nth_mem) simp
  show ?case
  proof (cases "n < 10")
    case True
    then show ?thesis
      using digit [of n] by (subst string_of_nat.simps) simp
  next
    case False
    have "n mod 10 < 10" by simp
    with 1 False digit [of "n mod 10"] show ?thesis
      by (subst string_of_nat.simps) simp
  qed
qed

lemma indexed_type: "indexed xs ''type'' = None"
proof -
  have "''type'' \<notin> set (map string_of_nat [0..<length xs])"
  proof
    assume "''type'' \<in> set (map string_of_nat [0..<length xs])"
    then obtain n where "string_of_nat n = ''type''" by auto
    with string_of_nat_digits [of n] show False by simp
  qed
  then show ?thesis
    by (simp add: indexed_def del: set_map)
qed

text \<open>Only an object can bring a \<open>type\<close> key of its own.\<close>

lemma own_props_type_object:
  "own_props ps ''type'' = Some v \<Longrightarrow> \<exists>m. ps = JObj m \<and> m ''type'' = Some v"
  by (cases ps) (simp_all add: indexed_type)

text \<open>
  C10. In the request of \<open>downloadChart type ps\<close>, the query parameter \<open>type\<close> is the
  value of the caller's own \<open>type\<close> property when \<open>ps\<close> has one, and the explicit
  argument when it has none.
\<close>

theorem downloadChart_type_override:
  "(own_props ps ''type'' = Some v \<longrightarrow>
      query_param (outgoing st (downloadChart type ps)) ''type'' = Some v)
   \<and> (own_props ps ''type'' = None \<longrightarrow>
      query_param (outgoing st (downloadChart type ps)) ''type'' = Some (JStr type))"
  by (simp add: query_param_def outgoing_fields downloadChart_def axios_get_def no_config_def
      map_add_def)

theorem downloadChart_type_override_witness:
  "own_props (JObj [''type'' \<mapsto> JStr ''bar'', ''period'' \<mapsto> JStr ''monthly'']) ''type''
     = Some (JStr ''bar'')
   \<and> query_param (outgoing stored_session
         (downloadChart ''pie'' (JObj [''type'' \<mapsto> JStr ''bar'', ''period'' \<mapsto> JStr ''monthly''])))
         ''type'' = Some (JStr ''bar'')
   \<and> own_props (JObj [''period'' \<mapsto> JStr ''monthly'']) ''type'' = None
   \<and> query_param (outgoing stored_session
         (downloadChart ''pie'' (JObj [''period'' \<mapsto> JStr ''monthly''])))
         ''type'' = Some (JStr ''pie'')"
  using downloadChart_type_override
      [of "JObj [''type'' \<mapsto> JStr ''bar'', ''period'' \<mapsto> JStr ''monthly'']" "JStr ''bar''"
        stored_session "''pie''"]
    downloadChart_type_override
      [of "JObj [''period'' \<mapsto> JStr ''monthly'']" "JStr ''bar''" stored_session "''pie''"]
  by simp

end
